theory Spec2Isabelle
  imports Complex_Main "HOL-Library.Sublist"
begin

section \<open>Go strings\<close>

text \<open>
  Go strings are byte sequences; \<^typ>\<open>string\<close> is a list of 8-bit characters.
  The three library calls the resolver makes are written out.
\<close>

text \<open>\<^verbatim>\<open>strings.Contains(s, substr)\<close>: \<^verbatim>\<open>substr\<close> occurs somewhere in \<^verbatim>\<open>s\<close>.\<close>

fun Contains :: "string \<Rightarrow> string \<Rightarrow> bool" where
  "Contains [] substr = (substr = [])"
| "Contains (c # s) substr = (prefix substr (c # s) \<or> Contains s substr)"

text \<open>\<^verbatim>\<open>strings.HasSuffix\<close> and \<^verbatim>\<open>strings.TrimSuffix\<close>: one occurrence of the suffix
  is removed, when there is one.\<close>

definition HasSuffix :: "string \<Rightarrow> string \<Rightarrow> bool" where
  "HasSuffix s suff =
     (length suff \<le> length s \<and> drop (length s - length suff) s = suff)"

definition TrimSuffix :: "string \<Rightarrow> string \<Rightarrow> string" where
  "TrimSuffix s suff =
     (if HasSuffix s suff then take (length s - length suff) s else s)"


section \<open>Freight and Argo CD data\<close>

record FreightOrigin =
  Kind :: string
  Name :: string

record GitCommit =
  RepoURL :: string
  ID :: string
  HealthCheckCommit :: string

record Chart =
  RepoURL :: string
  Name :: string
  Version :: string

record FreightReference =
  Origin :: FreightOrigin
  Commits :: "GitCommit list"
  Charts :: "Chart list"

record ArgoCDSourceUpdate =
  Origin :: "FreightOrigin option"
  RepoURL :: string
  Chart :: string

record ArgoCDAppUpdate =
  Origin :: "FreightOrigin option"
  SourceUpdates :: "ArgoCDSourceUpdate list"

record ApplicationSource =
  RepoURL :: string
  Chart :: string

text \<open>\<^verbatim>\<open>Source\<close> is a pointer and \<^verbatim>\<open>Sources\<close> a slice: both can be nil, and a nil
  slice differs from an empty one.\<close>

record ApplicationSpec =
  Source :: "ApplicationSource option"
  Sources :: "ApplicationSource list option"

record Application =
  Spec :: ApplicationSpec

text \<open>The \<^verbatim>\<open>any\<close>-typed promotion mechanism handed to \<^verbatim>\<open>freight.GetDesiredOrigin\<close>
  is either the application update or one of its source updates.\<close>

datatype promoMechanism =
  AppUpdate ArgoCDAppUpdate
| SourceUpdate ArgoCDSourceUpdate

text \<open>
  Package \<^verbatim>\<open>freight\<close> is a collaborator of the resolver: its three functions are
  parameters of the model. The context and the client they also take are part of the
  functions themselves. A lookup returns \<open>Inl err\<close> for an error, \<open>Inr None\<close> for
  \<^verbatim>\<open>nil, nil\<close> and \<open>Inr (Some x)\<close> for a match.
\<close>

record ('stage, 'e) freight =
  GetDesiredOrigin :: "'stage \<Rightarrow> promoMechanism \<Rightarrow> FreightOrigin option"
  FindChart :: "'stage \<Rightarrow> FreightOrigin option \<Rightarrow> FreightReference list
                  \<Rightarrow> string \<Rightarrow> string \<Rightarrow> 'e + Chart option"
  FindCommit :: "'stage \<Rightarrow> FreightOrigin option \<Rightarrow> FreightReference list
                  \<Rightarrow> string \<Rightarrow> 'e + GitCommit option"


section \<open>The desired-revision resolver\<close>

text \<open>The two wrapped errors of \<^verbatim>\<open>GetDesiredRevisions\<close>, each carrying the repo URL of
  the source and the collaborator's error.\<close>

datatype 'e revisionError =
  ErrorFindingChart string 'e
| ErrorFindingCommit string 'e

text \<open>What the function does: it panics on a nil pointer, or returns the revisions
  collected so far together with an error or nil.\<close>

datatype 'e revisions =
  NilPointerDereference
| Return "string list" "'e revisionError option"

text \<open>What one pass through the body of the loop does.\<close>

datatype 'e step =
  Skip
| Append string
| Abort "'e revisionError"
| NilPointer

text \<open>The search for a source update: the first element for which the condition
  holds ends the loop.\<close>

fun firstSourceUpdate ::
  "(ArgoCDSourceUpdate \<Rightarrow> bool) \<Rightarrow> ArgoCDSourceUpdate list \<Rightarrow> ArgoCDSourceUpdate option" where
  "firstSourceUpdate matches [] = None"
| "firstSourceUpdate matches (sourceUpdate # rest) =
     (if matches sourceUpdate then Some sourceUpdate else firstSourceUpdate matches rest)"

text \<open>\<^verbatim>\<open>targetPromoMechanism\<close> in the Helm case: repo URL and chart name both equal.\<close>

definition chartPromoMechanism :: "ArgoCDAppUpdate \<Rightarrow> ApplicationSource \<Rightarrow> promoMechanism" where
  "chartPromoMechanism update source =
     (case firstSourceUpdate
             (\<lambda>sourceUpdate.
                ArgoCDSourceUpdate.RepoURL sourceUpdate = ApplicationSource.RepoURL source \<and>
                ArgoCDSourceUpdate.Chart sourceUpdate = ApplicationSource.Chart source)
             (SourceUpdates update) of
        Some sourceUpdate \<Rightarrow> SourceUpdate sourceUpdate
      | None \<Rightarrow> AppUpdate update)"

text \<open>\<^verbatim>\<open>targetPromoMechanism\<close> in the Git case: the repo URL equal.\<close>

definition commitPromoMechanism :: "ArgoCDAppUpdate \<Rightarrow> ApplicationSource \<Rightarrow> promoMechanism" where
  "commitPromoMechanism update source =
     (case firstSourceUpdate
             (\<lambda>sourceUpdate.
                ArgoCDSourceUpdate.RepoURL sourceUpdate = ApplicationSource.RepoURL source)
             (SourceUpdates update) of
        Some sourceUpdate \<Rightarrow> SourceUpdate sourceUpdate
      | None \<Rightarrow> AppUpdate update)"

text \<open>The chart reference searched for in the freight: without a protocol the repo URL
  is taken for an OCI registry and the chart name moves into the URL.\<close>

definition chartReference :: "string \<Rightarrow> string \<Rightarrow> string \<times> string" where
  "chartReference repoURL chartName =
     (if \<not> Contains repoURL ''://''
      then (''oci://'' @ TrimSuffix repoURL ''/'' @ ''/'' @ chartName, '''')
      else (repoURL, chartName))"

text \<open>
  The body of the loop over the sources. In the Helm case the repo URL and the chart
  name of the lookup are read from \<^verbatim>\<open>app.Spec.Source\<close>, a pointer, and the error
  message from the source of the loop.
\<close>

definition sourceRevision ::
  "('stage, 'e) freight \<Rightarrow> 'stage \<Rightarrow> ArgoCDAppUpdate \<Rightarrow> Application
     \<Rightarrow> FreightReference list \<Rightarrow> ApplicationSource \<Rightarrow> 'e step" where
  "sourceRevision frt stage update app frght source =
     (if ApplicationSource.Chart source \<noteq> '''' then
        (let desiredOrigin = GetDesiredOrigin frt stage (chartPromoMechanism update source)
         in case Source (Spec app) of
              None \<Rightarrow> NilPointer
            | Some appSource \<Rightarrow>
                (case chartReference (ApplicationSource.RepoURL appSource)
                                     (ApplicationSource.Chart appSource) of
                   (repoURL, chartName) \<Rightarrow>
                     (case FindChart frt stage desiredOrigin frght repoURL chartName of
                        Inl err \<Rightarrow> Abort (ErrorFindingChart (ApplicationSource.RepoURL source) err)
                      | Inr None \<Rightarrow> Append ''''
                      | Inr (Some chart) \<Rightarrow> Append (Version chart))))
      else if ApplicationSource.RepoURL source \<noteq> '''' then
        (let desiredOrigin = GetDesiredOrigin frt stage (commitPromoMechanism update source)
         in case FindCommit frt stage desiredOrigin frght (ApplicationSource.RepoURL source) of
              Inl err \<Rightarrow> Abort (ErrorFindingCommit (ApplicationSource.RepoURL source) err)
            | Inr None \<Rightarrow> Append ''''
            | Inr (Some commit) \<Rightarrow>
                if HealthCheckCommit commit \<noteq> '''' then Append (HealthCheckCommit commit)
                else Append (ID commit))
      else Skip)"

text \<open>The loop: \<open>revisions\<close> grows at its end, and an error returns what it holds.\<close>

fun resolveSources ::
  "('stage, 'e) freight \<Rightarrow> 'stage \<Rightarrow> ArgoCDAppUpdate \<Rightarrow> Application
     \<Rightarrow> FreightReference list \<Rightarrow> ApplicationSource list \<Rightarrow> string list \<Rightarrow> 'e revisions" where
  "resolveSources frt stage update app frght [] revisions = Return revisions None"
| "resolveSources frt stage update app frght (source # sources) revisions =
     (case sourceRevision frt stage update app frght source of
        Skip \<Rightarrow> resolveSources frt stage update app frght sources revisions
      | Append revision \<Rightarrow>
          resolveSources frt stage update app frght sources (revisions @ [revision])
      | Abort err \<Rightarrow> Return revisions (Some err)
      | NilPointer \<Rightarrow> NilPointerDereference)"

text \<open>\<^verbatim>\<open>update\<close> is dereferenced in every case of the loop and is taken to be non-nil;
  \<^verbatim>\<open>app\<close> is checked, so it is an option.\<close>

definition GetDesiredRevisions ::
  "('stage, 'e) freight \<Rightarrow> 'stage \<Rightarrow> ArgoCDAppUpdate \<Rightarrow> Application option
     \<Rightarrow> FreightReference list \<Rightarrow> 'e revisions" where
  "GetDesiredRevisions frt stage update app frght =
     (case app of
        None \<Rightarrow> Return [] None
      | Some a \<Rightarrow>
          (case Sources (Spec a) of
             Some sources \<Rightarrow> resolveSources frt stage update a frght sources []
           | None \<Rightarrow>
               (case Source (Spec a) of
                  None \<Rightarrow> Return [] None
                | Some source \<Rightarrow> resolveSources frt stage update a frght [source] [])))"

text \<open>A source the loop has a case for: it names a chart, or else a repository.\<close>

definition classifiable :: "ApplicationSource \<Rightarrow> bool" where
  "classifiable source =
     (ApplicationSource.Chart source \<noteq> '''' \<or> ApplicationSource.RepoURL source \<noteq> '''')"

text \<open>The sources the loop runs over.\<close>

definition appSources :: "Application \<Rightarrow> ApplicationSource list" where
  "appSources a =
     (case Sources (Spec a) of
        Some sources \<Rightarrow> sources
      | None \<Rightarrow> (case Source (Spec a) of None \<Rightarrow> [] | Some source \<Rightarrow> [source]))"


section \<open>The Bookkeeper promotion mechanism\<close>

text \<open>
  \<^verbatim>\<open>StageState.Commits\<close> is a slice, and \<^verbatim>\<open>doSingleUpdate\<close> assigns to an element of
  it: the write goes to the backing array, which every copy of the struct shares. So
  the backing arrays live in a store, a slice is the address of its array or nil, and
  the store is passed along. No code here reslices or appends to \<^verbatim>\<open>Commits\<close>, so the
  length of the slice is the length of its array. \<^verbatim>\<open>Images\<close> is only read and is kept
  as a value.
\<close>

type_synonym addr = nat

type_synonym store = "GitCommit list list"

record Image =
  RepoURL :: string
  Tag :: string

record StageState =
  ID :: string
  Commits :: "addr option"
  Images :: "Image list"

text \<open>The commits a slice holds; the nil slice holds none.\<close>

definition commitsOf :: "store \<Rightarrow> addr option \<Rightarrow> GitCommit list" where
  "commitsOf h commits = (case commits of None \<Rightarrow> [] | Some a \<Rightarrow> h ! a)"

text \<open>\<^verbatim>\<open>BookkeeperPromotionMechanism\<close> carries nothing that is read here; only whether
  the pointer is nil matters.\<close>

record GitRepoUpdate =
  RepoURL :: string
  ReadBranch :: string
  WriteBranch :: string
  Bookkeeper :: "unit option"

record PromotionMechanisms =
  GitRepoUpdates :: "GitRepoUpdate list"

record StageSpec =
  PromotionMechanisms :: PromotionMechanisms

record Stage =
  Namespace :: string
  Spec :: StageSpec

datatype credentialsType = TypeGit

record Credentials =
  Username :: string
  Password :: string
  SSHPrivateKey :: string

record RepoCredentials =
  Username :: string
  Password :: string
  SSHPrivateKey :: string

record RenderRequest =
  RepoURL :: string
  RepoCreds :: RepoCredentials
  Ref :: string
  Images :: "string list"
  TargetBranch :: string

text \<open>The action Bookkeeper reports; the code names two and leaves the rest to the
  default case.\<close>

datatype ActionTaken =
  ActionTakenPushedDirectly
| ActionTakenNone
| ActionTakenOther

record RenderResponse =
  ActionTaken :: ActionTaken
  CommitID :: string

text \<open>The errors \<^verbatim>\<open>doSingleUpdate\<close> returns: the one of \<^verbatim>\<open>getReadRefFn\<close> as it is, the
  other two wrapped with the repo URL.\<close>

datatype 'e promotionError =
  ReadRefError 'e
| ErrorObtainingCredentials string 'e
| ErrorRenderingManifests string 'e

text \<open>A promotion returns a state and an error or nil, or panics on an index out of
  range.\<close>

datatype 'e promoted =
  Panic
| Returned StageState "'e promotionError option"

text \<open>The overridable behaviours of the mechanism. Each returns its values and an error
  or nil, as the Go function does; \<^verbatim>\<open>doSingleUpdateFn\<close> may write to the store.\<close>

record 'e bookkeeperMechanism =
  doSingleUpdateFn :: "string \<Rightarrow> GitRepoUpdate \<Rightarrow> StageState \<Rightarrow> string list \<Rightarrow> store
                         \<Rightarrow> 'e promoted \<times> store"
  getReadRefFn :: "GitRepoUpdate \<Rightarrow> GitCommit list \<Rightarrow> string \<times> int \<times> 'e option"
  getCredentialsFn :: "string \<Rightarrow> credentialsType \<Rightarrow> string \<Rightarrow> Credentials \<times> bool \<times> 'e option"
  renderManifestsFn :: "RenderRequest \<Rightarrow> RenderResponse \<times> 'e option"

text \<open>The credentials of the request: those found, or the zero value.\<close>

definition repoCreds :: "Credentials \<Rightarrow> bool \<Rightarrow> RepoCredentials" where
  "repoCreds creds ok =
     (if ok
      then \<lparr>RepoCredentials.Username = Credentials.Username creds,
            Password = Credentials.Password creds,
            SSHPrivateKey = Credentials.SSHPrivateKey creds\<rparr>
      else \<lparr>RepoCredentials.Username = '''', Password = '''', SSHPrivateKey = ''''\<rparr>)"

definition renderRequest ::
  "GitRepoUpdate \<Rightarrow> RepoCredentials \<Rightarrow> string \<Rightarrow> string list \<Rightarrow> RenderRequest" where
  "renderRequest update creds readRef images =
     \<lparr>RenderRequest.RepoURL = GitRepoUpdate.RepoURL update,
      RepoCreds = creds,
      Ref = readRef,
      Images = images,
      TargetBranch = WriteBranch update\<rparr>"

text \<open>
  \<^verbatim>\<open>newState.Commits[commitIndex].HealthCheckCommit = commitID\<close>, for an index above -1:
  the element of the backing array is overwritten; an index past the end, or any index
  into the nil slice, panics (\<open>None\<close>).
\<close>

definition setHealthCheckCommit :: "StageState \<Rightarrow> int \<Rightarrow> string \<Rightarrow> store \<Rightarrow> store option" where
  "setHealthCheckCommit newState commitIndex commitID h =
     (case StageState.Commits newState of
        None \<Rightarrow> None
      | Some a \<Rightarrow>
          if nat commitIndex < length (h ! a)
          then Some (h[a := (h ! a)[nat commitIndex :=
                       (h ! a ! nat commitIndex)\<lparr>HealthCheckCommit := commitID\<rparr>]])
          else None)"

text \<open>The two cases of the switch that record the commit do the same.\<close>

definition recordCommit ::
  "StageState \<Rightarrow> int \<Rightarrow> string \<Rightarrow> store \<Rightarrow> 'e promoted \<times> store" where
  "recordCommit newState commitIndex commitID h =
     (if commitIndex > -1
      then (case setHealthCheckCommit newState commitIndex commitID h of
              None \<Rightarrow> (Panic, h)
            | Some h' \<Rightarrow> (Returned newState None, h'))
      else (Returned newState None, h))"

definition doSingleUpdate ::
  "'e bookkeeperMechanism \<Rightarrow> string \<Rightarrow> GitRepoUpdate \<Rightarrow> StageState \<Rightarrow> string list \<Rightarrow> store
     \<Rightarrow> 'e promoted \<times> store" where
  "doSingleUpdate b namespace update newState images h =
     (case getReadRefFn b update (commitsOf h (StageState.Commits newState)) of
        (readRef, commitIndex, Some err) \<Rightarrow> (Returned newState (Some (ReadRefError err)), h)
      | (readRef, commitIndex, None) \<Rightarrow>
          (case getCredentialsFn b namespace TypeGit (GitRepoUpdate.RepoURL update) of
             (creds, ok, Some err) \<Rightarrow>
               (Returned newState
                  (Some (ErrorObtainingCredentials (GitRepoUpdate.RepoURL update) err)), h)
           | (creds, ok, None) \<Rightarrow>
               (case renderManifestsFn b
                       (renderRequest update (repoCreds creds ok) readRef images) of
                  (res, Some err) \<Rightarrow>
                    (Returned newState
                       (Some (ErrorRenderingManifests (GitRepoUpdate.RepoURL update) err)), h)
                | (res, None) \<Rightarrow>
                    (case ActionTaken res of
                       ActionTakenPushedDirectly \<Rightarrow>
                         recordCommit newState commitIndex (CommitID res) h
                     | ActionTakenNone \<Rightarrow>
                         recordCommit newState commitIndex (CommitID res) h
                     | ActionTakenOther \<Rightarrow> (Returned newState None, h)))))"

text \<open>
  Modelled from the spec: \<^verbatim>\<open>StageState.DeepCopy\<close> is generated code that is not among
  the sources. A deep copy of the state has a backing array of its own for \<^verbatim>\<open>Commits\<close>,
  holding the same entries, and a nil slice stays nil; this is what the generator emits
  for \<^verbatim>\<open>Migration.Commits\<close>, which is among the sources. The new array is put at the end
  of the store.
\<close>

definition DeepCopy :: "StageState \<Rightarrow> store \<Rightarrow> StageState \<times> store" where
  "DeepCopy inState h =
     (case StageState.Commits inState of
        None \<Rightarrow> (inState, h)
      | Some a \<Rightarrow> (inState\<lparr>StageState.Commits := Some (length h)\<rparr>, h @ [h ! a]))"

text \<open>The loop over the updates: the state and the store of one update go to the next,
  and an error returns what the failing update returned.\<close>

fun promoteUpdates ::
  "'e bookkeeperMechanism \<Rightarrow> string \<Rightarrow> GitRepoUpdate list \<Rightarrow> StageState \<Rightarrow> string list
     \<Rightarrow> store \<Rightarrow> 'e promoted \<times> store" where
  "promoteUpdates b namespace [] newState images h = (Returned newState None, h)"
| "promoteUpdates b namespace (update # updates) newState images h =
     (case doSingleUpdateFn b namespace update newState images h of
        (Panic, h') \<Rightarrow> (Panic, h')
      | (Returned newState' (Some err), h') \<Rightarrow> (Returned newState' (Some err), h')
      | (Returned newState' None, h') \<Rightarrow> promoteUpdates b namespace updates newState' images h')"

text \<open>The updates that have a Bookkeeper configuration, in their order.\<close>

definition bookkeeperUpdates :: "Stage \<Rightarrow> GitRepoUpdate list" where
  "bookkeeperUpdates stage =
     filter (\<lambda>update. Bookkeeper update \<noteq> None)
       (GitRepoUpdates (PromotionMechanisms (Stage.Spec stage)))"

definition imageRefs :: "StageState \<Rightarrow> string list" where
  "imageRefs newState =
     map (\<lambda>image. Image.RepoURL image @ '':'' @ Tag image) (StageState.Images newState)"

definition Promote ::
  "'e bookkeeperMechanism \<Rightarrow> Stage \<Rightarrow> StageState \<Rightarrow> store \<Rightarrow> 'e promoted \<times> store" where
  "Promote b stage newState h =
     (let updates = bookkeeperUpdates stage
      in if length updates = 0 then (Returned newState None, h)
         else (case DeepCopy newState h of
                 (newState, h) \<Rightarrow>
                   promoteUpdates b (Namespace stage) updates newState (imageRefs newState) h))"


section \<open>The configuration schema of git-push\<close>

text \<open>
  A step configuration is a JSON document, and its schema is a JSON Schema. The schema
  is written with one function for each keyword it uses, each with the meaning the
  JSON Schema standard gives it: a keyword for objects accepts every value that is not
  an object, and likewise for strings.
\<close>

datatype json =
  JNull
| JBool bool
| JNumber real
| JString string
| JArray "json list"
| JObject "(string \<times> json) list"

type_synonym schema = "json \<Rightarrow> bool"

text \<open>The value of a property of an object.\<close>

definition property :: "json \<Rightarrow> string \<Rightarrow> json option" where
  "property v k = (case v of JObject kvs \<Rightarrow> map_of kvs k | _ \<Rightarrow> None)"

fun hasType :: "string \<Rightarrow> schema" where
  "hasType t JNull = (t = ''null'')"
| "hasType t (JBool b) = (t = ''boolean'')"
| "hasType t (JNumber r) = (t = ''number'')"
| "hasType t (JString s) = (t = ''string'')"
| "hasType t (JArray vs) = (t = ''array'')"
| "hasType t (JObject kvs) = (t = ''object'')"

definition allOf :: "schema list \<Rightarrow> schema" where
  "allOf schemas v = list_all (\<lambda>s. s v) schemas"

definition oneOf :: "schema list \<Rightarrow> schema" where
  "oneOf schemas v = (length (filter (\<lambda>s. s v) schemas) = 1)"

definition required :: "string list \<Rightarrow> schema" where
  "required ks v =
     (case v of JObject kvs \<Rightarrow> list_all (\<lambda>k. map_of kvs k \<noteq> None) ks | _ \<Rightarrow> True)"

definition properties :: "(string \<times> schema) list \<Rightarrow> schema" where
  "properties ps v =
     (case v of
        JObject kvs \<Rightarrow>
          list_all (\<lambda>(k, s). case map_of kvs k of None \<Rightarrow> True | Some x \<Rightarrow> s x) ps
      | _ \<Rightarrow> True)"

text \<open>\<^verbatim>\<open>"additionalProperties": false\<close> beside the named properties.\<close>

definition noAdditionalProperties :: "string list \<Rightarrow> schema" where
  "noAdditionalProperties names v =
     (case v of JObject kvs \<Rightarrow> list_all (\<lambda>(k, x). k \<in> set names) kvs | _ \<Rightarrow> True)"

definition constOf :: "json \<Rightarrow> schema" where
  "constOf c v = (v = c)"

definition enumOf :: "json list \<Rightarrow> schema" where
  "enumOf cs v = (v \<in> set cs)"

definition minLength :: "nat \<Rightarrow> schema" where
  "minLength n v = (case v of JString s \<Rightarrow> n \<le> length s | _ \<Rightarrow> True)"

text \<open>The schema titled \<^verbatim>\<open>GitPushConfig\<close>, keyword by keyword.\<close>

definition GitPushConfig :: schema where
  "GitPushConfig =
     allOf
       [hasType ''object'',
        noAdditionalProperties [''generateTargetBranch'', ''path'', ''targetBranch''],
        required [''path''],
        properties
          [(''generateTargetBranch'', hasType ''boolean''),
           (''path'', allOf [hasType ''string'', minLength 1]),
           (''targetBranch'', hasType ''string'')],
        oneOf
          [allOf
             [required [''generateTargetBranch''],
              properties
                [(''generateTargetBranch'', constOf (JBool True)),
                 (''targetBranch'', enumOf [JString '''', JNull])]],
           allOf
             [required [''targetBranch''],
              properties
                [(''generateTargetBranch'', enumOf [JNull, JBool False]),
                 (''targetBranch'', minLength 1)]]]]"

datatype configError = ConfigInvalid

text \<open>
  Modelled from the spec: the function that validates a step configuration against
  its schema is not among the sources. Validation fails with \<open>ConfigInvalid\<close> when the
  raw configuration does not conform to the schema.
\<close>

definition validate :: "schema \<Rightarrow> json \<Rightarrow> configError option" where
  "validate s config = (if s config then None else Some ConfigInvalid)"

text \<open>The two ways of naming the target branch.\<close>

definition generatesTargetBranch :: "json \<Rightarrow> bool" where
  "generatesTargetBranch config = (property config ''generateTargetBranch'' = Some (JBool True))"

definition namesTargetBranch :: "json \<Rightarrow> bool" where
  "namesTargetBranch config =
     (case property config ''targetBranch'' of Some (JString s) \<Rightarrow> s \<noteq> '''' | _ \<Rightarrow> False)"


section \<open>Chart version changes\<close>

text \<open>
  Modelled from the spec: \<^verbatim>\<open>compareChartVersions\<close> is not among the sources, only its
  test is. It computes the difference of two maps from chart name to version: a chart
  that is new is reported with its version, a chart whose version differs as
  \<^verbatim>\<open>old -> new\<close>, a chart that is gone with the empty string, and a chart whose version
  is the same is not reported.
\<close>

definition compareChartVersions ::
  "(string \<rightharpoonup> string) \<Rightarrow> (string \<rightharpoonup> string) \<Rightarrow> (string \<rightharpoonup> string)" where
  "compareChartVersions before after =
     (\<lambda>name.
        case after name of
          Some newVersion \<Rightarrow>
            (case before name of
               Some oldVersion \<Rightarrow>
                 if oldVersion \<noteq> newVersion
                 then Some (oldVersion @ '' -> '' @ newVersion)
                 else None
             | None \<Rightarrow> Some newVersion)
        | None \<Rightarrow> (case before name of Some oldVersion \<Rightarrow> Some '''' | None \<Rightarrow> None))"

text \<open>
  Applying a change-set to the map it was computed from, as the round-trip property
  words it: a name reported with the empty string is deleted; another reported name
  that the map has gets what follows \<^verbatim>\<open>old -> \<close>, \<^verbatim>\<open>old\<close> being its version in the map;
  another reported name that the map lacks is inserted at the reported version.
\<close>

definition applyChanges ::
  "(string \<rightharpoonup> string) \<Rightarrow> (string \<rightharpoonup> string) \<Rightarrow> (string \<rightharpoonup> string)" where
  "applyChanges changes before =
     (\<lambda>name.
        case changes name of
          None \<Rightarrow> before name
        | Some reported \<Rightarrow>
            if reported = '''' then None
            else (case before name of
                    None \<Rightarrow> Some reported
                  | Some oldVersion \<Rightarrow>
                      Some (drop (length (oldVersion @ '' -> '')) reported)))"


section \<open>The freight package, from its description\<close>

text \<open>
  Modelled from the spec: \<^verbatim>\<open>freight.GetDesiredOrigin\<close>, \<^verbatim>\<open>freight.FindChart\<close> and
  \<^verbatim>\<open>freight.FindCommit\<close> are not among the sources. A source update's origin rule takes
  precedence, and the promotion-wide one is the default. A finder keeps the freight
  whose origin satisfies the policy (that origin, or any origin the stage requests when
  there is none) and returns the first artifact with the same key, or nil when nothing
  matches. The stage is the list of the origins it requests. These definitions stand
  in for the collaborator in the examples; every theorem below holds for any
  collaborator.
\<close>

definition satisfiesOrigin ::
  "FreightOrigin list \<Rightarrow> FreightOrigin option \<Rightarrow> FreightReference \<Rightarrow> bool" where
  "satisfiesOrigin requested desiredOrigin f =
     (case desiredOrigin of
        Some origin \<Rightarrow> FreightReference.Origin f = origin
      | None \<Rightarrow> FreightReference.Origin f \<in> set requested)"

definition describedGetDesiredOrigin ::
  "FreightOrigin list \<Rightarrow> promoMechanism \<Rightarrow> FreightOrigin option" where
  "describedGetDesiredOrigin requested mechanism =
     (case mechanism of
        AppUpdate update \<Rightarrow> ArgoCDAppUpdate.Origin update
      | SourceUpdate sourceUpdate \<Rightarrow> ArgoCDSourceUpdate.Origin sourceUpdate)"

definition describedFindChart ::
  "FreightOrigin list \<Rightarrow> FreightOrigin option \<Rightarrow> FreightReference list
     \<Rightarrow> string \<Rightarrow> string \<Rightarrow> string + Chart option" where
  "describedFindChart requested desiredOrigin frght repoURL chartName =
     Inr (find (\<lambda>chart. Chart.RepoURL chart = repoURL \<and> Chart.Name chart = chartName)
            (concat (map Charts (filter (satisfiesOrigin requested desiredOrigin) frght))))"

definition describedFindCommit ::
  "FreightOrigin list \<Rightarrow> FreightOrigin option \<Rightarrow> FreightReference list
     \<Rightarrow> string \<Rightarrow> string + GitCommit option" where
  "describedFindCommit requested desiredOrigin frght repoURL =
     Inr (find (\<lambda>commit. GitCommit.RepoURL commit = repoURL)
            (concat (map FreightReference.Commits
                       (filter (satisfiesOrigin requested desiredOrigin) frght))))"

definition describedFreight :: "(FreightOrigin list, string) freight" where
  "describedFreight =
     \<lparr>GetDesiredOrigin = describedGetDesiredOrigin,
      FindChart = describedFindChart,
      FindCommit = describedFindCommit\<rparr>"

text \<open>The same collaborator when the lookup of commits fails for one repository.\<close>

definition failingFindCommit ::
  "string \<Rightarrow> FreightOrigin list \<Rightarrow> FreightOrigin option \<Rightarrow> FreightReference list
     \<Rightarrow> string \<Rightarrow> string + GitCommit option" where
  "failingFindCommit failingRepo requested desiredOrigin frght repoURL =
     (if repoURL = failingRepo then Inl ''listing failed''
      else describedFindCommit requested desiredOrigin frght repoURL)"

definition failingFreight :: "string \<Rightarrow> (FreightOrigin list, string) freight" where
  "failingFreight failingRepo =
     \<lparr>GetDesiredOrigin = describedGetDesiredOrigin,
      FindChart = describedFindChart,
      FindCommit = failingFindCommit failingRepo\<rparr>"


section \<open>Example inputs of the resolver\<close>

definition w1 :: FreightOrigin where
  "w1 = \<lparr>Kind = ''Warehouse'', Name = ''w1''\<rparr>"

definition w2 :: FreightOrigin where
  "w2 = \<lparr>Kind = ''Warehouse'', Name = ''w2''\<rparr>"

definition helmSource :: ApplicationSource where
  "helmSource = \<lparr>ApplicationSource.RepoURL = ''https://x'', Chart = ''c''\<rparr>"

definition gitSource :: ApplicationSource where
  "gitSource = \<lparr>ApplicationSource.RepoURL = ''https://y'', Chart = ''''\<rparr>"

definition otherGitSource :: ApplicationSource where
  "otherGitSource = \<lparr>ApplicationSource.RepoURL = ''https://z'', Chart = ''''\<rparr>"

definition ociSource :: ApplicationSource where
  "ociSource = \<lparr>ApplicationSource.RepoURL = ''registry.example.com/charts/'', Chart = ''c''\<rparr>"

text \<open>An update whose default origin is \<open>w1\<close>, with an override for the Git repository
  that selects \<open>w2\<close>.\<close>

definition scenarioUpdate :: ArgoCDAppUpdate where
  "scenarioUpdate =
     \<lparr>ArgoCDAppUpdate.Origin = Some w1,
      SourceUpdates =
        [\<lparr>ArgoCDSourceUpdate.Origin = Some w2, RepoURL = ''https://y'', Chart = ''''\<rparr>]\<rparr>"

text \<open>An application with several sources lists them in \<^verbatim>\<open>Sources\<close> and has no
  \<^verbatim>\<open>Source\<close>.\<close>

definition multiSourceApp :: "ApplicationSource list \<Rightarrow> Application" where
  "multiSourceApp sources = \<lparr>Application.Spec = \<lparr>Source = None, Sources = Some sources\<rparr>\<rparr>"

definition singleSourceApp :: "ApplicationSource \<Rightarrow> Application" where
  "singleSourceApp source = \<lparr>Application.Spec = \<lparr>Source = Some source, Sources = None\<rparr>\<rparr>"

text \<open>An application that has both fields set.\<close>

definition bothFieldsApp :: "ApplicationSource \<Rightarrow> ApplicationSource list \<Rightarrow> Application" where
  "bothFieldsApp source sources =
     \<lparr>Application.Spec = \<lparr>Source = Some source, Sources = Some sources\<rparr>\<rparr>"

text \<open>Freight with chart \<open>c\<close> at 1.2.3 from \<open>w1\<close> and a commit of the Git repository
  from \<open>w2\<close>, with the given health-check commit.\<close>

definition scenarioFreight :: "string \<Rightarrow> FreightReference list" where
  "scenarioFreight healthCheckCommit =
     [\<lparr>FreightReference.Origin = w1,
       Commits = [],
       Charts = [\<lparr>Chart.RepoURL = ''https://x'', Name = ''c'', Version = ''1.2.3''\<rparr>]\<rparr>,
      \<lparr>FreightReference.Origin = w2,
       Commits = [\<lparr>GitCommit.RepoURL = ''https://y'', ID = ''abc123'',
                   HealthCheckCommit = healthCheckCommit\<rparr>],
       Charts = []\<rparr>]"

text \<open>Freight with a chart at the OCI reference of \<open>ociSource\<close>.\<close>

definition ociFreight :: "FreightReference list" where
  "ociFreight =
     [\<lparr>FreightReference.Origin = w1,
       Commits = [],
       Charts = [\<lparr>Chart.RepoURL = ''oci://registry.example.com/charts/c'', Name = '''',
                  Version = ''1.0.0''\<rparr>]\<rparr>]"



section \<open>Matching a source update\<close>





section \<open>Example inputs of the promotion\<close>

text \<open>
  \<^verbatim>\<open>newBookkeeperMechanism\<close>: the struct starts with nil function values, and a call of
  a nil function panics; then the fields are set, \<^verbatim>\<open>doSingleUpdateFn\<close> to the method of
  the struct itself, which reads the other three fields. \<^verbatim>\<open>getReadRef\<close> is not among the
  sources and is a parameter here.
\<close>

definition newBookkeeperMechanism ::
  "(GitRepoUpdate \<Rightarrow> GitCommit list \<Rightarrow> string \<times> int \<times> 'e option)
     \<Rightarrow> (string \<Rightarrow> credentialsType \<Rightarrow> string \<Rightarrow> Credentials \<times> bool \<times> 'e option)
     \<Rightarrow> (RenderRequest \<Rightarrow> RenderResponse \<times> 'e option)
     \<Rightarrow> 'e bookkeeperMechanism" where
  "newBookkeeperMechanism getReadRef credentialsGet renderManifests =
     (let b = \<lparr>doSingleUpdateFn = (\<lambda>namespace update newState images h. (Panic, h)),
               getReadRefFn = getReadRef,
               getCredentialsFn = credentialsGet,
               renderManifestsFn = renderManifests\<rparr>
      in b\<lparr>doSingleUpdateFn := doSingleUpdate b\<rparr>)"

text \<open>
  Modelled from the spec: \<^verbatim>\<open>getReadRef\<close> is not among the sources. It determines the
  read ref and, if a commit is recorded for the repository of the update, the position
  of that commit; without one the position is -1 and the ref is the branch to read.
\<close>

fun commitIndexOf :: "string \<Rightarrow> GitCommit list \<Rightarrow> int" where
  "commitIndexOf repoURL [] = -1"
| "commitIndexOf repoURL (commit # commits) =
     (if GitCommit.RepoURL commit = repoURL then 0
      else (let i = commitIndexOf repoURL commits in if i > -1 then i + 1 else -1))"

definition describedGetReadRef ::
  "GitRepoUpdate \<Rightarrow> GitCommit list \<Rightarrow> string \<times> int \<times> string option" where
  "describedGetReadRef update commits =
     (let i = commitIndexOf (GitRepoUpdate.RepoURL update) commits
      in if i > -1 then (GitCommit.ID (commits ! nat i), i, None)
         else (ReadBranch update, -1, None))"

text \<open>A credentials store that holds nothing, and a renderer that pushes a commit named
  after the ref it read, except for one repository, for which it fails.\<close>

definition noCredentials ::
  "string \<Rightarrow> credentialsType \<Rightarrow> string \<Rightarrow> Credentials \<times> bool \<times> string option" where
  "noCredentials namespace credType repo =
     (\<lparr>Credentials.Username = '''', Password = '''', SSHPrivateKey = ''''\<rparr>, False, None)"

definition exampleRender :: "RenderRequest \<Rightarrow> RenderResponse \<times> string option" where
  "exampleRender req =
     (if RenderRequest.RepoURL req = ''https://bad''
      then (\<lparr>ActionTaken = ActionTakenOther, CommitID = ''''\<rparr>, Some ''render failed'')
      else (\<lparr>ActionTaken = ActionTakenPushedDirectly,
             CommitID = ''rendered-'' @ Ref req\<rparr>, None))"

definition exampleMechanism :: "string bookkeeperMechanism" where
  "exampleMechanism = newBookkeeperMechanism describedGetReadRef noCredentials exampleRender"

definition bookkeeperUpdate :: "string \<Rightarrow> GitRepoUpdate" where
  "bookkeeperUpdate repoURL =
     \<lparr>GitRepoUpdate.RepoURL = repoURL, ReadBranch = ''main'', WriteBranch = ''env/test'',
      Bookkeeper = Some ()\<rparr>"

definition plainUpdate :: "string \<Rightarrow> GitRepoUpdate" where
  "plainUpdate repoURL =
     \<lparr>GitRepoUpdate.RepoURL = repoURL, ReadBranch = ''main'', WriteBranch = ''env/test'',
      Bookkeeper = None\<rparr>"

definition stageWith :: "GitRepoUpdate list \<Rightarrow> Stage" where
  "stageWith updates =
     \<lparr>Namespace = ''project'',
      Stage.Spec = \<lparr>PromotionMechanisms = \<lparr>GitRepoUpdates = updates\<rparr>\<rparr>\<rparr>"

text \<open>A store with one array of two commits, and a state whose \<^verbatim>\<open>Commits\<close> is that
  array.\<close>

definition exampleStore :: store where
  "exampleStore =
     [[\<lparr>GitCommit.RepoURL = ''https://a'', ID = ''a1'', HealthCheckCommit = ''''\<rparr>,
       \<lparr>GitCommit.RepoURL = ''https://b'', ID = ''b1'', HealthCheckCommit = ''''\<rparr>]]"

definition exampleState :: StageState where
  "exampleState =
     \<lparr>StageState.ID = ''state'', Commits = Some 0,
      Images = [\<lparr>Image.RepoURL = ''nginx'', Tag = ''1.25''\<rparr>]\<rparr>"


text \<open>The state after the deep copy, and the store after it with the given health-check
  commits in the copy.\<close>

definition copiedState :: StageState where
  "copiedState = exampleState\<lparr>StageState.Commits := Some 1\<rparr>"

definition promotedStore :: "string \<Rightarrow> string \<Rightarrow> store" where
  "promotedStore healthA healthB =
     exampleStore @
     [[\<lparr>GitCommit.RepoURL = ''https://a'', ID = ''a1'', HealthCheckCommit = healthA\<rparr>,
       \<lparr>GitCommit.RepoURL = ''https://b'', ID = ''b1'', HealthCheckCommit = healthB\<rparr>]]"


section \<open>Example configurations of git-push\<close>

definition bothTargets :: json where
  "bothTargets =
     JObject [(''path'', JString ''./repo''),
              (''generateTargetBranch'', JBool True),
              (''targetBranch'', JString ''main'')]"

definition namedTarget :: json where
  "namedTarget =
     JObject [(''path'', JString ''./repo''),
              (''targetBranch'', JString ''main'')]"


section \<open>Example chart versions\<close>

definition noCharts :: "string \<rightharpoonup> string" where
  "noCharts = Map.empty"

text \<open>A chart with the empty string as its version.\<close>

definition unversionedChart :: "string \<rightharpoonup> string" where
  "unversionedChart = noCharts(''c'' \<mapsto> '''')"

text \<open>The maps of the test case with several changes.\<close>

definition beforeCharts :: "string \<rightharpoonup> string" where
  "beforeCharts =
     noCharts(''chart1'' \<mapsto> ''1.0.0'', ''chart2'' \<mapsto> ''2.0.0'', ''chart3'' \<mapsto> ''3.0.0'')"

definition afterCharts :: "string \<rightharpoonup> string" where
  "afterCharts =
     noCharts(''chart1'' \<mapsto> ''1.1.0'', ''chart2'' \<mapsto> ''2.0.0'', ''chart4'' \<mapsto> ''4.0.0'')"

definition changedCharts :: "string \<rightharpoonup> string" where
  "changedCharts =
     noCharts(''chart1'' \<mapsto> ''1.0.0 -> 1.1.0'', ''chart3'' \<mapsto> '''', ''chart4'' \<mapsto> ''4.0.0'')"


section \<open>Properties of the resolver\<close>

lemmas examples = w1_def w2_def helmSource_def gitSource_def otherGitSource_def ociSource_def
  scenarioUpdate_def multiSourceApp_def singleSourceApp_def bothFieldsApp_def
  scenarioFreight_def ociFreight_def
lemmas described = describedFreight_def describedGetDesiredOrigin_def describedFindChart_def
  describedFindCommit_def satisfiesOrigin_def failingFreight_def failingFindCommit_def
lemmas resolver = GetDesiredRevisions_def sourceRevision_def chartPromoMechanism_def
  commitPromoMechanism_def chartReference_def TrimSuffix_def HasSuffix_def

text \<open>The loop skips exactly the sources it has no case for.\<close>

lemma sourceRevision_Skip:
  "sourceRevision frt stage update app frght source = Skip \<longleftrightarrow> \<not> classifiable source"
  by (auto simp: sourceRevision_def classifiable_def Let_def
           split: option.splits sum.splits prod.splits)

lemma resolveSources_Return:
  "resolveSources frt stage update app frght sources acc = Return revs None \<Longrightarrow>
   \<exists>new. revs = acc @ new \<and>
         list_all2 (\<lambda>source revision.
                      sourceRevision frt stage update app frght source = Append revision)
                   (filter classifiable sources) new"
proof (induction sources arbitrary: acc)
  case Nil
  then show ?case by simp
next
  case (Cons source sources)
  show ?case
  proof (cases "sourceRevision frt stage update app frght source")
    case Skip
    with Cons.prems have "resolveSources frt stage update app frght sources acc = Return revs None"
      by simp
    from Cons.IH [OF this] Skip show ?thesis
      by (simp add: sourceRevision_Skip)
  next
    case (Append revision)
    with Cons.prems
    have "resolveSources frt stage update app frght sources (acc @ [revision]) = Return revs None"
      by simp
    from Cons.IH [OF this] obtain new where
      new: "revs = (acc @ [revision]) @ new"
        "list_all2 (\<lambda>source revision.
                      sourceRevision frt stage update app frght source = Append revision)
                   (filter classifiable sources) new"
      by blast
    have "classifiable source"
      using Append sourceRevision_Skip [of frt stage update app frght source] by auto
    with new Append show ?thesis
      by (intro exI [of _ "revision # new"]) simp
  next
    case (Abort err)
    with Cons.prems show ?thesis by simp
  next
    case NilPointer
    with Cons.prems show ?thesis by simp
  qed
qed

lemma GetDesiredRevisions_Return:
  assumes "GetDesiredRevisions frt stage update (Some a) frght = Return revs None"
  shows "list_all2 (\<lambda>source revision.
                      sourceRevision frt stage update a frght source = Append revision)
                   (filter classifiable (appSources a)) revs"
proof -
  have "resolveSources frt stage update a frght (appSources a) [] = Return revs None"
    using assms
    by (auto simp: GetDesiredRevisions_def appSources_def split: option.splits)
  from resolveSources_Return [OF this] show ?thesis by simp
qed

text \<open>
  C1. The scenario of the two sources, a Helm source and a Git source with an override
  that selects \<open>w2\<close>, resolved against freight with chart \<open>c\<close> at 1.2.3 from the default
  origin and commit \<open>abc123\<close> from \<open>w2\<close>, is claimed to return the two revisions in
  order. An application with two sources has them in \<^verbatim>\<open>Sources\<close> and no \<^verbatim>\<open>Source\<close>; the
  Helm case reads the repo URL through \<^verbatim>\<open>app.Spec.Source\<close>, so whatever the collaborator
  is, the resolver dereferences nil at the first source and returns no list.
\<close>

theorem scenario_nil_source:
  "GetDesiredRevisions frt stage scenarioUpdate
     (Some (multiSourceApp [helmSource, gitSource])) (scenarioFreight '''')
   = NilPointerDereference"
  by (simp add: GetDesiredRevisions_def sourceRevision_def multiSourceApp_def helmSource_def)

text \<open>When \<^verbatim>\<open>Source\<close> happens to hold the Helm source as well, the scenario returns the
  expected list.\<close>

lemma scenario_source_set:
  "GetDesiredRevisions describedFreight [w1, w2] scenarioUpdate
     (Some (bothFieldsApp helmSource [helmSource, gitSource])) (scenarioFreight '''')
   = Return [''1.2.3'', ''abc123''] None"
  by (simp add: resolver examples described)

text \<open>
  C2, as stated, fails: with two Git sources and a commit lookup that fails for the
  second, the list returned has one entry for two classifiable sources.
\<close>

theorem partial_list_counterexample:
  "length (filter classifiable [gitSource, otherGitSource]) = 2 \<and>
   GetDesiredRevisions (failingFreight ''https://z'') [w1, w2] scenarioUpdate
     (Some (multiSourceApp [gitSource, otherGitSource])) (scenarioFreight '''')
   = Return [''abc123''] (Some (ErrorFindingCommit ''https://z'' ''listing failed''))"
  by (simp add: resolver examples described classifiable_def)

text \<open>
  C2, amended. Whenever the resolver returns a nil error, the list has exactly one
  entry for each classifiable source, in the order of the sources: the entry at a
  position is the revision the loop computes for the classifiable source at that
  position. A Git source whose commit is not found in the freight of its effective
  origin policy has the empty string as its entry, and so has a Helm source that is
  the application's \<^verbatim>\<open>Source\<close> and whose chart is not found.
\<close>

theorem one_entry_per_classifiable_source:
  assumes "GetDesiredRevisions frt stage update (Some a) frght = Return revs None"
  shows "length revs = length (filter classifiable (appSources a)) \<and>
         (\<forall>i<length revs.
            sourceRevision frt stage update a frght (filter classifiable (appSources a) ! i)
              = Append (revs ! i)) \<and>
         (\<forall>i<length revs.
            ApplicationSource.Chart (filter classifiable (appSources a) ! i) = '''' \<and>
            FindCommit frt stage
              (GetDesiredOrigin frt stage
                 (commitPromoMechanism update (filter classifiable (appSources a) ! i)))
              frght (ApplicationSource.RepoURL (filter classifiable (appSources a) ! i))
              = Inr None
            \<longrightarrow> revs ! i = '''') \<and>
         (\<forall>i<length revs.
            ApplicationSource.Chart (filter classifiable (appSources a) ! i) \<noteq> '''' \<and>
            Source (Application.Spec a) = Some (filter classifiable (appSources a) ! i) \<and>
            FindChart frt stage
              (GetDesiredOrigin frt stage
                 (chartPromoMechanism update (filter classifiable (appSources a) ! i)))
              frght
              (fst (chartReference
                      (ApplicationSource.RepoURL (filter classifiable (appSources a) ! i))
                      (ApplicationSource.Chart (filter classifiable (appSources a) ! i))))
              (snd (chartReference
                      (ApplicationSource.RepoURL (filter classifiable (appSources a) ! i))
                      (ApplicationSource.Chart (filter classifiable (appSources a) ! i))))
              = Inr None
            \<longrightarrow> revs ! i = '''')"
proof -
  let ?cs = "filter classifiable (appSources a)"
  have all: "list_all2 (\<lambda>source revision.
                 sourceRevision frt stage update a frght source = Append revision) ?cs revs"
    using assms by (rule GetDesiredRevisions_Return)
  then have len: "length revs = length ?cs"
    by (simp add: list_all2_lengthD)
  have entry: "sourceRevision frt stage update a frght (?cs ! i) = Append (revs ! i)"
    if "i < length revs" for i
    using list_all2_nthD [OF all, of i] that len by simp
  have cls: "classifiable (?cs ! i)" if "i < length revs" for i
  proof -
    have "i < length ?cs" using that len by simp
    then have "?cs ! i \<in> set ?cs" by (rule nth_mem)
    then show ?thesis by simp
  qed
  have git: "revs ! i = ''''"
    if "i < length revs" "ApplicationSource.Chart (?cs ! i) = ''''"
       "FindCommit frt stage (GetDesiredOrigin frt stage (commitPromoMechanism update (?cs ! i)))
          frght (ApplicationSource.RepoURL (?cs ! i)) = Inr None" for i
    using entry [OF that(1)] cls [OF that(1)] that(2,3)
    by (simp add: sourceRevision_def classifiable_def)
  have helm: "revs ! i = ''''"
    if "i < length revs" "ApplicationSource.Chart (?cs ! i) \<noteq> ''''"
       "Source (Application.Spec a) = Some (?cs ! i)"
       "FindChart frt stage (GetDesiredOrigin frt stage (chartPromoMechanism update (?cs ! i)))
          frght
          (fst (chartReference (ApplicationSource.RepoURL (?cs ! i))
                  (ApplicationSource.Chart (?cs ! i))))
          (snd (chartReference (ApplicationSource.RepoURL (?cs ! i))
                  (ApplicationSource.Chart (?cs ! i)))) = Inr None" for i
    using entry [OF that(1)] that(2,3,4)
    by (simp add: sourceRevision_def split_beta)
  from len entry git helm show ?thesis by blast
qed

theorem one_entry_per_classifiable_source_witness:
  "GetDesiredRevisions describedFreight [w1, w2] scenarioUpdate
     (Some (multiSourceApp [gitSource, otherGitSource])) (scenarioFreight '''')
     = Return [''abc123'', ''''] None \<and>
   length [''abc123'', '''']
     = length (filter classifiable (appSources (multiSourceApp [gitSource, otherGitSource]))) \<and>
   sourceRevision describedFreight [w1, w2] scenarioUpdate
     (multiSourceApp [gitSource, otherGitSource]) (scenarioFreight '''')
     (filter classifiable (appSources (multiSourceApp [gitSource, otherGitSource])) ! 1)
     = Append ([''abc123'', ''''] ! 1)"
proof -
  have run: "GetDesiredRevisions describedFreight [w1, w2] scenarioUpdate
     (Some (multiSourceApp [gitSource, otherGitSource])) (scenarioFreight '''')
     = Return [''abc123'', ''''] None"
    by (simp add: resolver examples described)
  note entries = one_entry_per_classifiable_source [OF run]
  from entries have len: "length [''abc123'', '''']
     = length (filter classifiable (appSources (multiSourceApp [gitSource, otherGitSource])))"
    by (rule conjunct1)
  from entries have "\<forall>i<length [''abc123'', ''''].
     sourceRevision describedFreight [w1, w2] scenarioUpdate
       (multiSourceApp [gitSource, otherGitSource]) (scenarioFreight '''')
       (filter classifiable (appSources (multiSourceApp [gitSource, otherGitSource])) ! i)
       = Append ([''abc123'', ''''] ! i)"
    by (rule conjunct1 [OF conjunct2])
  then have "sourceRevision describedFreight [w1, w2] scenarioUpdate
       (multiSourceApp [gitSource, otherGitSource]) (scenarioFreight '''')
       (filter classifiable (appSources (multiSourceApp [gitSource, otherGitSource])) ! 1)
       = Append ([''abc123'', ''''] ! 1)"
    by simp
  with run len show ?thesis by blast
qed

text \<open>
  C3. A Helm source whose repo URL has no protocol is claimed to be looked up at the
  OCI reference made of its own repo URL and chart name, with an empty chart name. That
  is so for the source of a single-source application. For a source listed in
  \<^verbatim>\<open>Sources\<close> the reference is made from \<^verbatim>\<open>app.Spec.Source\<close> instead: with no \<^verbatim>\<open>Source\<close>
  the resolver dereferences nil and looks nothing up, and with another \<^verbatim>\<open>Source\<close> it
  looks that one up and misses the chart the freight holds at the OCI reference.
\<close>

theorem oci_source_outside_source_field:
  "GetDesiredRevisions describedFreight [w1, w2] scenarioUpdate
     (Some (singleSourceApp ociSource)) ociFreight = Return [''1.0.0''] None \<and>
   GetDesiredRevisions describedFreight [w1, w2] scenarioUpdate
     (Some (multiSourceApp [ociSource])) ociFreight = NilPointerDereference \<and>
   GetDesiredRevisions describedFreight [w1, w2] scenarioUpdate
     (Some (bothFieldsApp helmSource [ociSource])) ociFreight = Return [''''] None"
  by (simp add: resolver examples described)

text \<open>For the source of a single-source application the lookup is the one described.\<close>

lemma single_source_oci_lookup:
  assumes "Sources (Application.Spec a) = None"
      and "Source (Application.Spec a) = Some source"
      and "ApplicationSource.Chart source \<noteq> ''''"
      and "\<not> Contains (ApplicationSource.RepoURL source) ''://''"
  shows "GetDesiredRevisions frt stage update (Some a) frght =
           (case FindChart frt stage
                   (GetDesiredOrigin frt stage (chartPromoMechanism update source)) frght
                   (''oci://'' @ TrimSuffix (ApplicationSource.RepoURL source) ''/'' @ ''/''
                      @ ApplicationSource.Chart source)
                   '''' of
              Inl err \<Rightarrow> Return [] (Some (ErrorFindingChart (ApplicationSource.RepoURL source) err))
            | Inr None \<Rightarrow> Return [''''] None
            | Inr (Some chart) \<Rightarrow> Return [Version chart] None)"
  using assms
  by (simp add: GetDesiredRevisions_def sourceRevision_def chartReference_def
           split: sum.splits option.splits)

text \<open>Whatever the resolver returns, with an error or without, every entry of the list
  is the revision the loop computed for the classifiable source at its position.\<close>

lemma resolveSources_Return_any:
  "resolveSources frt stage update app frght sources acc = Return revs err \<Longrightarrow>
   \<exists>new. revs = acc @ new \<and>
         length new \<le> length (filter classifiable sources) \<and>
         (\<forall>i<length new.
            sourceRevision frt stage update app frght (filter classifiable sources ! i)
              = Append (new ! i))"
proof (induction sources arbitrary: acc)
  case Nil
  then show ?case by simp
next
  case (Cons source sources)
  show ?case
  proof (cases "sourceRevision frt stage update app frght source")
    case Skip
    with Cons.prems
    have "resolveSources frt stage update app frght sources acc = Return revs err"
      by simp
    from Cons.IH [OF this] Skip show ?thesis
      by (simp add: sourceRevision_Skip)
  next
    case (Append revision)
    with Cons.prems
    have "resolveSources frt stage update app frght sources (acc @ [revision]) = Return revs err"
      by simp
    from Cons.IH [OF this] obtain new where
      new: "revs = (acc @ [revision]) @ new"
        "length new \<le> length (filter classifiable sources)"
        "\<forall>i<length new.
            sourceRevision frt stage update app frght (filter classifiable sources ! i)
              = Append (new ! i)"
      by blast
    have cls: "classifiable source"
      using Append sourceRevision_Skip [of frt stage update app frght source] by auto
    have "\<forall>i<length (revision # new).
            sourceRevision frt stage update app frght ((source # filter classifiable sources) ! i)
              = Append ((revision # new) ! i)"
      using new(3) Append by (auto simp: nth_Cons split: nat.splits)
    with new(1,2) cls show ?thesis
      by (intro exI [of _ "revision # new"]) simp
  next
    case (Abort e)
    with Cons.prems show ?thesis by simp
  next
    case NilPointer
    with Cons.prems show ?thesis by simp
  qed
qed

lemma GetDesiredRevisions_Return_any:
  assumes "GetDesiredRevisions frt stage update (Some a) frght = Return revs err"
      and "i < length revs"
  shows "i < length (filter classifiable (appSources a)) \<and>
         sourceRevision frt stage update a frght (filter classifiable (appSources a) ! i)
           = Append (revs ! i)"
proof -
  have "resolveSources frt stage update a frght (appSources a) [] = Return revs err
        \<or> (revs = [] \<and> appSources a = [])"
    using assms(1)
    by (auto simp: GetDesiredRevisions_def appSources_def split: option.splits)
  with assms(2)
  have "resolveSources frt stage update a frght (appSources a) [] = Return revs err"
    by auto
  from resolveSources_Return_any [OF this] assms(2) show ?thesis by auto
qed

text \<open>
  C4. For a Git source whose lookup found a commit, the revision the resolver takes is
  the commit's \<^verbatim>\<open>HealthCheckCommit\<close> if that is not empty and the commit's ID if it is:
  this is what the loop appends for the source, whatever the other sources are; it is
  the list returned for a single-source application; and it is the entry at the
  position of the source in every list the resolver returns, with an error or without.
\<close>

theorem git_source_revision:
  assumes "ApplicationSource.Chart source = ''''"
      and "ApplicationSource.RepoURL source \<noteq> ''''"
      and "FindCommit frt stage (GetDesiredOrigin frt stage (commitPromoMechanism update source))
             frght (ApplicationSource.RepoURL source) = Inr (Some commit)"
  shows "sourceRevision frt stage update app frght source
           = Append (if HealthCheckCommit commit \<noteq> '''' then HealthCheckCommit commit
                     else GitCommit.ID commit) \<and>
         (Sources (Application.Spec app) = None \<and> Source (Application.Spec app) = Some source
            \<longrightarrow> GetDesiredRevisions frt stage update (Some app) frght
                  = Return [if HealthCheckCommit commit \<noteq> '''' then HealthCheckCommit commit
                            else GitCommit.ID commit] None) \<and>
         (\<forall>revs err i.
            GetDesiredRevisions frt stage update (Some app) frght = Return revs err \<and>
            i < length revs \<and>
            filter classifiable (appSources app) ! i = source
            \<longrightarrow> revs ! i = (if HealthCheckCommit commit \<noteq> '''' then HealthCheckCommit commit
                              else GitCommit.ID commit))"
proof -
  let ?rev = "if HealthCheckCommit commit \<noteq> '''' then HealthCheckCommit commit
              else GitCommit.ID commit"
  have step: "sourceRevision frt stage update app frght source = Append ?rev"
    using assms by (simp add: sourceRevision_def)
  have single: "GetDesiredRevisions frt stage update (Some app) frght = Return [?rev] None"
    if "Sources (Application.Spec app) = None" "Source (Application.Spec app) = Some source"
    using that step by (simp add: GetDesiredRevisions_def)
  have entry: "revs ! i = ?rev"
    if "GetDesiredRevisions frt stage update (Some app) frght = Return revs err"
       "i < length revs" "filter classifiable (appSources app) ! i = source"
    for revs err i
    using GetDesiredRevisions_Return_any [OF that(1,2)] that(3) step by simp
  from step single entry show ?thesis by blast
qed

theorem git_source_revision_witness:
  "ApplicationSource.Chart gitSource = '''' \<and>
   ApplicationSource.RepoURL gitSource \<noteq> '''' \<and>
   FindCommit describedFreight [w1, w2]
     (GetDesiredOrigin describedFreight [w1, w2] (commitPromoMechanism scenarioUpdate gitSource))
     (scenarioFreight ''def456'') (ApplicationSource.RepoURL gitSource)
     = Inr (Some \<lparr>GitCommit.RepoURL = ''https://y'', ID = ''abc123'',
                   HealthCheckCommit = ''def456''\<rparr>) \<and>
   sourceRevision describedFreight [w1, w2] scenarioUpdate (singleSourceApp gitSource)
     (scenarioFreight ''def456'') gitSource = Append ''def456'' \<and>
   GetDesiredRevisions describedFreight [w1, w2] scenarioUpdate
     (Some (singleSourceApp gitSource)) (scenarioFreight ''def456'') = Return [''def456''] None \<and>
   FindCommit describedFreight [w1, w2]
     (GetDesiredOrigin describedFreight [w1, w2] (commitPromoMechanism scenarioUpdate gitSource))
     (scenarioFreight '''') (ApplicationSource.RepoURL gitSource)
     = Inr (Some \<lparr>GitCommit.RepoURL = ''https://y'', ID = ''abc123'',
                   HealthCheckCommit = ''''\<rparr>) \<and>
   GetDesiredRevisions describedFreight [w1, w2] scenarioUpdate
     (Some (singleSourceApp gitSource)) (scenarioFreight '''') = Return [''abc123''] None"
proof -
  let ?rendered = "\<lparr>GitCommit.RepoURL = ''https://y'', ID = ''abc123'',
                   HealthCheckCommit = ''def456''\<rparr>"
  let ?plain = "\<lparr>GitCommit.RepoURL = ''https://y'', ID = ''abc123'',
                   HealthCheckCommit = ''''\<rparr>"
  have git: "ApplicationSource.Chart gitSource = ''''"
    by (simp add: gitSource_def)
  have repo: "ApplicationSource.RepoURL gitSource \<noteq> ''''"
    by (simp add: gitSource_def)
  have found: "FindCommit describedFreight [w1, w2]
     (GetDesiredOrigin describedFreight [w1, w2] (commitPromoMechanism scenarioUpdate gitSource))
     (scenarioFreight ''def456'') (ApplicationSource.RepoURL gitSource) = Inr (Some ?rendered)"
    by (simp add: resolver examples described)
  have found': "FindCommit describedFreight [w1, w2]
     (GetDesiredOrigin describedFreight [w1, w2] (commitPromoMechanism scenarioUpdate gitSource))
     (scenarioFreight '''') (ApplicationSource.RepoURL gitSource) = Inr (Some ?plain)"
    by (simp add: resolver examples described)
  have app: "Sources (Application.Spec (singleSourceApp gitSource)) = None \<and>
             Source (Application.Spec (singleSourceApp gitSource)) = Some gitSource"
    by (simp add: singleSourceApp_def)
  note rendered = git_source_revision [OF git repo found, of "singleSourceApp gitSource"]
  note plain = git_source_revision [OF git repo found', of "singleSourceApp gitSource"]
  from rendered
  have step: "sourceRevision describedFreight [w1, w2] scenarioUpdate (singleSourceApp gitSource)
     (scenarioFreight ''def456'') gitSource = Append ''def456''"
    by simp
  from rendered app
  have run: "GetDesiredRevisions describedFreight [w1, w2] scenarioUpdate
     (Some (singleSourceApp gitSource)) (scenarioFreight ''def456'') = Return [''def456''] None"
    by simp
  from plain app
  have run': "GetDesiredRevisions describedFreight [w1, w2] scenarioUpdate
     (Some (singleSourceApp gitSource)) (scenarioFreight '''') = Return [''abc123''] None"
    by simp
  from git repo found step run found' run' show ?thesis by blast
qed







section \<open>Properties of the promotion\<close>

lemmas promotion_examples = exampleMechanism_def newBookkeeperMechanism_def
  describedGetReadRef_def noCredentials_def exampleRender_def bookkeeperUpdate_def
  plainUpdate_def stageWith_def exampleStore_def exampleState_def copiedState_def
  promotedStore_def
lemmas promotion = Promote_def bookkeeperUpdates_def imageRefs_def DeepCopy_def
  doSingleUpdate_def recordCommit_def setHealthCheckCommit_def commitsOf_def
  renderRequest_def repoCreds_def

text \<open>Updates that succeed hand their state and store to the rest of the loop.\<close>

lemma promoteUpdates_append:
  "promoteUpdates b namespace pre newState images h = (Returned s1 None, h1) \<Longrightarrow>
   promoteUpdates b namespace (pre @ rest) newState images h =
     promoteUpdates b namespace rest s1 images h1"
proof (induction pre arbitrary: newState h)
  case Nil
  then show ?case by simp
next
  case (Cons update pre)
  obtain r h' where step: "doSingleUpdateFn b namespace update newState images h = (r, h')"
    by (cases "doSingleUpdateFn b namespace update newState images h")
  show ?case
  proof (cases r)
    case Panic
    with step Cons.prems show ?thesis by simp
  next
    case (Returned s e)
    show ?thesis
    proof (cases e)
      case None
      with step Returned Cons.prems
      have "promoteUpdates b namespace pre s images h' = (Returned s1 None, h1)" by simp
      from Cons.IH [OF this] step Returned None show ?thesis by simp
    next
      case (Some err)
      with step Returned Cons.prems show ?thesis by simp
    qed
  qed
qed

text \<open>An update that fails returns the state it was given and leaves the store as it
  was.\<close>

lemma doSingleUpdate_error:
  "doSingleUpdate b namespace update newState images h = (Returned s (Some err), h') \<Longrightarrow>
   s = newState \<and> h' = h"
  by (auto simp: doSingleUpdate_def recordCommit_def
           split: prod.splits option.splits ActionTaken.splits if_splits)

text \<open>
  C6. When the updates before one succeed and that one returns an error, \<^verbatim>\<open>Promote\<close>
  returns that error together with the state and the store the failing update
  returned, whatever updates follow it: none of them contributes to the result. With
  \<^verbatim>\<open>doSingleUpdate\<close> as the update step, the state and the store returned are those the
  updates before the failing one left.
\<close>

theorem promote_stops_at_first_error:
  assumes "bookkeeperUpdates stage = pre @ failing # post"
      and "DeepCopy newState h = (copied, h0)"
      and "promoteUpdates b (Namespace stage) pre copied (imageRefs copied) h0
             = (Returned s1 None, h1)"
      and "doSingleUpdateFn b (Namespace stage) failing s1 (imageRefs copied) h1
             = (Returned s2 (Some err), h2)"
  shows "Promote b stage newState h = (Returned s2 (Some err), h2) \<and>
         (doSingleUpdateFn b = doSingleUpdate b \<longrightarrow> s2 = s1 \<and> h2 = h1)"
proof -
  have "promoteUpdates b (Namespace stage) (pre @ failing # post) copied (imageRefs copied) h0
          = promoteUpdates b (Namespace stage) (failing # post) s1 (imageRefs copied) h1"
    using assms(3) by (rule promoteUpdates_append)
  also have "\<dots> = (Returned s2 (Some err), h2)"
    using assms(4) by simp
  finally have "Promote b stage newState h = (Returned s2 (Some err), h2)"
    using assms(1,2) by (simp add: Promote_def)
  moreover have "s2 = s1 \<and> h2 = h1" if "doSingleUpdateFn b = doSingleUpdate b"
    using assms(4) that doSingleUpdate_error [of b "Namespace stage" failing s1 "imageRefs copied" h1 s2 err h2]
    by simp
  ultimately show ?thesis by blast
qed

theorem promote_stops_at_first_error_witness:
  "bookkeeperUpdates
     (stageWith [bookkeeperUpdate ''https://a'', plainUpdate ''https://c'',
                 bookkeeperUpdate ''https://bad'', bookkeeperUpdate ''https://b''])
     = [bookkeeperUpdate ''https://a''] @ bookkeeperUpdate ''https://bad''
         # [bookkeeperUpdate ''https://b''] \<and>
   DeepCopy exampleState exampleStore = (copiedState, promotedStore '''' '''') \<and>
   promoteUpdates exampleMechanism ''project'' [bookkeeperUpdate ''https://a''] copiedState
     (imageRefs copiedState) (promotedStore '''' '''')
     = (Returned copiedState None, promotedStore ''rendered-a1'' '''') \<and>
   doSingleUpdateFn exampleMechanism ''project'' (bookkeeperUpdate ''https://bad'') copiedState
     (imageRefs copiedState) (promotedStore ''rendered-a1'' '''')
     = (Returned copiedState (Some (ErrorRenderingManifests ''https://bad'' ''render failed'')),
        promotedStore ''rendered-a1'' '''') \<and>
   Promote exampleMechanism
     (stageWith [bookkeeperUpdate ''https://a'', plainUpdate ''https://c'',
                 bookkeeperUpdate ''https://bad'', bookkeeperUpdate ''https://b''])
     exampleState exampleStore
     = (Returned copiedState (Some (ErrorRenderingManifests ''https://bad'' ''render failed'')),
        promotedStore ''rendered-a1'' '''')"
proof -
  let ?stage = "stageWith [bookkeeperUpdate ''https://a'', plainUpdate ''https://c'',
                 bookkeeperUpdate ''https://bad'', bookkeeperUpdate ''https://b'']"
  have ns: "Namespace ?stage = ''project''"
    by (simp add: stageWith_def)
  have ups: "bookkeeperUpdates ?stage
     = [bookkeeperUpdate ''https://a''] @ bookkeeperUpdate ''https://bad''
         # [bookkeeperUpdate ''https://b'']"
    by (simp add: bookkeeperUpdates_def stageWith_def bookkeeperUpdate_def plainUpdate_def)
  have copy: "DeepCopy exampleState exampleStore = (copiedState, promotedStore '''' '''')"
    by (simp add: promotion promotion_examples)
  have pre: "promoteUpdates exampleMechanism (Namespace ?stage) [bookkeeperUpdate ''https://a'']
     copiedState (imageRefs copiedState) (promotedStore '''' '''')
     = (Returned copiedState None, promotedStore ''rendered-a1'' '''')"
    unfolding ns by (simp add: promotion promotion_examples)
  have fail: "doSingleUpdateFn exampleMechanism (Namespace ?stage) (bookkeeperUpdate ''https://bad'')
     copiedState (imageRefs copiedState) (promotedStore ''rendered-a1'' '''')
     = (Returned copiedState (Some (ErrorRenderingManifests ''https://bad'' ''render failed'')),
        promotedStore ''rendered-a1'' '''')"
    unfolding ns by (simp add: promotion promotion_examples)
  from promote_stops_at_first_error [OF ups copy pre fail]
  have "Promote exampleMechanism ?stage exampleState exampleStore
     = (Returned copiedState (Some (ErrorRenderingManifests ''https://bad'' ''render failed'')),
        promotedStore ''rendered-a1'' '''')"
    by (rule conjunct1)
  with ups copy pre fail show ?thesis
    unfolding ns by blast
qed

text \<open>
  C7. When reading the ref, getting the credentials and rendering return no error, and
  Bookkeeper reports a direct push or no changes, \<^verbatim>\<open>doSingleUpdate\<close> returns the state
  with a nil error, and in the store the commit at the index \<^verbatim>\<open>getReadRefFn\<close> gave has
  its \<^verbatim>\<open>HealthCheckCommit\<close> set to the commit ID of the response; nothing else of the
  commits changes.
\<close>

theorem render_records_commit:
  assumes "getReadRefFn b update (commitsOf h (StageState.Commits newState))
             = (readRef, commitIndex, None)"
      and "getCredentialsFn b namespace TypeGit (GitRepoUpdate.RepoURL update) = (creds, ok, None)"
      and "renderManifestsFn b (renderRequest update (repoCreds creds ok) readRef images)
             = (res, None)"
      and "ActionTaken res = ActionTakenPushedDirectly \<or> ActionTaken res = ActionTakenNone"
      and "StageState.Commits newState = Some a"
      and "a < length h"
      and "0 \<le> commitIndex"
      and "nat commitIndex < length (h ! a)"
  shows "doSingleUpdate b namespace update newState images h
           = (Returned newState None,
              h[a := (h ! a)[nat commitIndex :=
                     (h ! a ! nat commitIndex)\<lparr>HealthCheckCommit := CommitID res\<rparr>]]) \<and>
         commitsOf (snd (doSingleUpdate b namespace update newState images h))
             (StageState.Commits newState)
           = (commitsOf h (StageState.Commits newState))[nat commitIndex :=
                (commitsOf h (StageState.Commits newState) ! nat commitIndex)
                  \<lparr>HealthCheckCommit := CommitID res\<rparr>]"
proof -
  have idx: "commitIndex > -1" using assms(7) by simp
  have rec: "recordCommit newState commitIndex (CommitID res) h
           = (Returned newState None,
              h[a := (h ! a)[nat commitIndex :=
                     (h ! a ! nat commitIndex)\<lparr>HealthCheckCommit := CommitID res\<rparr>]])"
    using idx assms(5,8) by (simp add: recordCommit_def setHealthCheckCommit_def)
  have run: "doSingleUpdate b namespace update newState images h
           = recordCommit newState commitIndex (CommitID res) h"
    using assms(1,2,3,4) by (auto simp: doSingleUpdate_def)
  have full: "doSingleUpdate b namespace update newState images h
           = (Returned newState None,
              h[a := (h ! a)[nat commitIndex :=
                     (h ! a ! nat commitIndex)\<lparr>HealthCheckCommit := CommitID res\<rparr>]])"
    using run rec by (rule trans)
  show ?thesis
    unfolding full using assms(5,6) by (simp add: commitsOf_def)
qed

text \<open>Without a commit recorded for the repository (an index of -1 or below) the
  update returns the state and the store as they are, with a nil error.\<close>

lemma render_without_commit:
  assumes "getReadRefFn b update (commitsOf h (StageState.Commits newState))
             = (readRef, commitIndex, None)"
      and "getCredentialsFn b namespace TypeGit (GitRepoUpdate.RepoURL update) = (creds, ok, None)"
      and "renderManifestsFn b (renderRequest update (repoCreds creds ok) readRef images)
             = (res, None)"
      and "commitIndex \<le> -1"
  shows "doSingleUpdate b namespace update newState images h = (Returned newState None, h)"
  using assms
  by (cases "ActionTaken res") (simp_all add: doSingleUpdate_def recordCommit_def)

theorem render_records_commit_witness:
  "getReadRefFn exampleMechanism (bookkeeperUpdate ''https://b'')
       (commitsOf exampleStore (StageState.Commits exampleState)) = (''b1'', 1, None) \<and>
   getCredentialsFn exampleMechanism ''project'' TypeGit
       (GitRepoUpdate.RepoURL (bookkeeperUpdate ''https://b''))
     = (\<lparr>Credentials.Username = '''', Password = '''', SSHPrivateKey = ''''\<rparr>, False, None) \<and>
   renderManifestsFn exampleMechanism
       (renderRequest (bookkeeperUpdate ''https://b'')
          (repoCreds \<lparr>Credentials.Username = '''', Password = '''', SSHPrivateKey = ''''\<rparr> False)
          ''b1'' [''nginx:1.25''])
     = (\<lparr>ActionTaken = ActionTakenPushedDirectly, CommitID = ''rendered-b1''\<rparr>, None) \<and>
   StageState.Commits exampleState = Some 0 \<and>
   (0::nat) < length exampleStore \<and>
   nat 1 < length (exampleStore ! 0) \<and>
   doSingleUpdate exampleMechanism ''project'' (bookkeeperUpdate ''https://b'') exampleState
       [''nginx:1.25''] exampleStore
     = (Returned exampleState None,
        [[\<lparr>GitCommit.RepoURL = ''https://a'', ID = ''a1'', HealthCheckCommit = ''''\<rparr>,
          \<lparr>GitCommit.RepoURL = ''https://b'', ID = ''b1'',
             HealthCheckCommit = ''rendered-b1''\<rparr>]])"
proof -
  let ?creds = "\<lparr>Credentials.Username = '''', Password = '''', SSHPrivateKey = ''''\<rparr>"
  let ?res = "\<lparr>ActionTaken = ActionTakenPushedDirectly, CommitID = ''rendered-b1''\<rparr>"
  have ref: "getReadRefFn exampleMechanism (bookkeeperUpdate ''https://b'')
       (commitsOf exampleStore (StageState.Commits exampleState)) = (''b1'', 1, None)"
    by (simp add: promotion promotion_examples)
  have cred: "getCredentialsFn exampleMechanism ''project'' TypeGit
       (GitRepoUpdate.RepoURL (bookkeeperUpdate ''https://b'')) = (?creds, False, None)"
    by (simp add: promotion promotion_examples)
  have render: "renderManifestsFn exampleMechanism
       (renderRequest (bookkeeperUpdate ''https://b'') (repoCreds ?creds False)
          ''b1'' [''nginx:1.25'']) = (?res, None)"
    by (simp add: promotion promotion_examples)
  have action: "ActionTaken ?res = ActionTakenPushedDirectly \<or> ActionTaken ?res = ActionTakenNone"
    by simp
  have slice: "StageState.Commits exampleState = Some 0"
    by (simp add: exampleState_def)
  have addr: "(0::nat) < length exampleStore"
    by (simp add: exampleStore_def)
  have pos: "(0::int) \<le> 1" by simp
  have len: "nat 1 < length (exampleStore ! 0)"
    by (simp add: exampleStore_def)
  from render_records_commit [OF ref cred render action slice addr pos len]
  have "doSingleUpdate exampleMechanism ''project'' (bookkeeperUpdate ''https://b'') exampleState
       [''nginx:1.25''] exampleStore
     = (Returned exampleState None,
        [[\<lparr>GitCommit.RepoURL = ''https://a'', ID = ''a1'', HealthCheckCommit = ''''\<rparr>,
          \<lparr>GitCommit.RepoURL = ''https://b'', ID = ''b1'',
             HealthCheckCommit = ''rendered-b1''\<rparr>]])"
    by (simp add: exampleStore_def)
  with ref cred render slice addr len show ?thesis by blast
qed

text \<open>
  What \<^verbatim>\<open>doSingleUpdate\<close> leaves alone: it allocates nothing, it writes only to the
  backing array of the \<^verbatim>\<open>Commits\<close> of the state it is given, and the state it returns
  is that state.
\<close>

lemma setHealthCheckCommit_frame:
  "setHealthCheckCommit newState commitIndex commitID h = Some h' \<Longrightarrow>
   length h' = length h \<and> (\<forall>a. StageState.Commits newState \<noteq> Some a \<longrightarrow> h' ! a = h ! a)"
  by (auto simp: setHealthCheckCommit_def split: option.splits if_splits)

lemma recordCommit_frame:
  "recordCommit newState commitIndex commitID h = (r, h') \<Longrightarrow>
   length h' = length h \<and>
   (\<forall>a. StageState.Commits newState \<noteq> Some a \<longrightarrow> h' ! a = h ! a) \<and>
   (\<forall>s e. r = Returned s e \<longrightarrow> s = newState)"
  using setHealthCheckCommit_frame [of newState commitIndex commitID h]
  by (auto simp: recordCommit_def split: option.splits if_splits)

lemma doSingleUpdate_frame:
  assumes "doSingleUpdate b namespace update newState images h = (r, h')"
  shows "length h' = length h \<and>
         (\<forall>a. StageState.Commits newState \<noteq> Some a \<longrightarrow> h' ! a = h ! a) \<and>
         (\<forall>s e. r = Returned s e \<longrightarrow> s = newState)"
proof -
  obtain readRef commitIndex e1 where
    g: "getReadRefFn b update (commitsOf h (StageState.Commits newState))
          = (readRef, commitIndex, e1)"
    using prod_cases3 by blast
  show ?thesis
  proof (cases e1)
    case (Some err)
    with assms g show ?thesis by (auto simp: doSingleUpdate_def)
  next
    case e1: None
    obtain creds ok e2 where
      c: "getCredentialsFn b namespace TypeGit (GitRepoUpdate.RepoURL update) = (creds, ok, e2)"
      using prod_cases3 by blast
    show ?thesis
    proof (cases e2)
      case (Some err)
      with assms g e1 c show ?thesis by (auto simp: doSingleUpdate_def)
    next
      case e2: None
      obtain res e3 where
        m: "renderManifestsFn b (renderRequest update (repoCreds creds ok) readRef images)
              = (res, e3)"
        by (cases "renderManifestsFn b (renderRequest update (repoCreds creds ok) readRef images)")
      show ?thesis
      proof (cases e3)
        case (Some err)
        with assms g e1 c e2 m show ?thesis by (auto simp: doSingleUpdate_def)
      next
        case e3: None
        show ?thesis
        proof (cases "ActionTaken res")
          case ActionTakenPushedDirectly
          with assms g e1 c e2 m e3
          have "recordCommit newState commitIndex (CommitID res) h = (r, h')"
            by (simp add: doSingleUpdate_def)
          then show ?thesis by (rule recordCommit_frame)
        next
          case ActionTakenNone
          with assms g e1 c e2 m e3
          have "recordCommit newState commitIndex (CommitID res) h = (r, h')"
            by (simp add: doSingleUpdate_def)
          then show ?thesis by (rule recordCommit_frame)
        next
          case ActionTakenOther
          with assms g e1 c e2 m e3 show ?thesis by (auto simp: doSingleUpdate_def)
        qed
      qed
    qed
  qed
qed

lemma promoteUpdates_frame:
  assumes "doSingleUpdateFn b = doSingleUpdate b"
  shows "promoteUpdates b namespace updates newState images h = (r, h') \<Longrightarrow>
         length h' = length h \<and>
         (\<forall>a. StageState.Commits newState \<noteq> Some a \<longrightarrow> h' ! a = h ! a)"
proof (induction updates arbitrary: h)
  case Nil
  then show ?case by simp
next
  case (Cons update updates)
  obtain r1 h1 where step: "doSingleUpdate b namespace update newState images h = (r1, h1)"
    by (cases "doSingleUpdate b namespace update newState images h")
  note frame = doSingleUpdate_frame [OF step]
  show ?case
  proof (cases r1)
    case Panic
    with step Cons.prems assms frame show ?thesis by simp
  next
    case (Returned s e)
    with frame have s: "s = newState" by simp
    show ?thesis
    proof (cases e)
      case (Some err)
      with step Returned Cons.prems assms frame show ?thesis by simp
    next
      case None
      with step Returned s Cons.prems assms
      have "promoteUpdates b namespace updates newState images h1 = (r, h')" by simp
      from Cons.IH [OF this] frame show ?thesis by simp
    qed
  qed
qed

text \<open>
  C10. Without a Git-repo update that has a Bookkeeper configuration, \<^verbatim>\<open>Promote\<close>
  returns the state it was given, a nil error and the store as it was. With
  \<^verbatim>\<open>doSingleUpdate\<close> as the update step, and when the \<^verbatim>\<open>Commits\<close> of the caller's state
  is nil or an array of the store, every array the store held before the call is the
  same after it, whatever the promotion did and however it ended: the writes go to
  the array of the deep copy, which is new. In particular the commits of the caller's
  state are what they were.
\<close>

theorem promote_leaves_input_state:
  "(bookkeeperUpdates stage = [] \<longrightarrow>
      Promote b stage newState h = (Returned newState None, h)) \<and>
   (doSingleUpdateFn b = doSingleUpdate b \<and>
    (\<forall>a. StageState.Commits newState = Some a \<longrightarrow> a < length h) \<longrightarrow>
      take (length h) (snd (Promote b stage newState h)) = h \<and>
      commitsOf (snd (Promote b stage newState h)) (StageState.Commits newState)
        = commitsOf h (StageState.Commits newState))"
proof (intro conjI impI)
  assume "bookkeeperUpdates stage = []"
  then show "Promote b stage newState h = (Returned newState None, h)"
    by (simp add: Promote_def)
next
  assume a: "doSingleUpdateFn b = doSingleUpdate b \<and>
    (\<forall>a. StageState.Commits newState = Some a \<longrightarrow> a < length h)"
  then have wiring: "doSingleUpdateFn b = doSingleUpdate b"
    and wf: "\<And>a. StageState.Commits newState = Some a \<Longrightarrow> a < length h"
    by blast+
  show old: "take (length h) (snd (Promote b stage newState h)) = h"
  proof (cases "bookkeeperUpdates stage = []")
    case True
    then show ?thesis by (simp add: Promote_def)
  next
    case False
    show ?thesis
    proof (cases "StageState.Commits newState")
      case None
      obtain r h' where run:
        "promoteUpdates b (Namespace stage) (bookkeeperUpdates stage) newState
           (imageRefs newState) h = (r, h')"
        by (cases "promoteUpdates b (Namespace stage) (bookkeeperUpdates stage) newState
           (imageRefs newState) h")
      from promoteUpdates_frame [OF wiring run] None
      have "length h' = length h" "\<forall>a. h' ! a = h ! a" by simp_all
      then have "h' = h" by (simp add: list_eq_iff_nth_eq)
      with False None run show ?thesis
        by (simp add: Promote_def DeepCopy_def)
    next
      case (Some a0)
      let ?copied = "newState\<lparr>StageState.Commits := Some (length h)\<rparr>"
      obtain r h' where run:
        "promoteUpdates b (Namespace stage) (bookkeeperUpdates stage) ?copied
           (imageRefs ?copied) (h @ [h ! a0]) = (r, h')"
        by (cases "promoteUpdates b (Namespace stage) (bookkeeperUpdates stage) ?copied
           (imageRefs ?copied) (h @ [h ! a0])")
      from promoteUpdates_frame [OF wiring run]
      have len: "length h' = Suc (length h)"
        and same: "\<forall>a. a \<noteq> length h \<longrightarrow> h' ! a = (h @ [h ! a0]) ! a"
        by simp_all
      have "take (length h) h' = h"
      proof (rule nth_equalityI)
        show "length (take (length h) h') = length h" using len by simp
      next
        fix i assume "i < length (take (length h) h')"
        then have i: "i < length h" by simp
        with same have "h' ! i = (h @ [h ! a0]) ! i" by simp
        with i show "take (length h) h' ! i = h ! i" by (simp add: nth_append)
      qed
      with False Some run show ?thesis
        by (simp add: Promote_def DeepCopy_def)
    qed
  qed
  show "commitsOf (snd (Promote b stage newState h)) (StageState.Commits newState)
        = commitsOf h (StageState.Commits newState)"
  proof (cases "StageState.Commits newState")
    case None
    then show ?thesis by (simp add: commitsOf_def)
  next
    case (Some a0)
    then have "a0 < length h" by (rule wf)
    then have "snd (Promote b stage newState h) ! a0
                 = take (length h) (snd (Promote b stage newState h)) ! a0"
      by simp
    with old Some show ?thesis by (simp add: commitsOf_def)
  qed
qed

text \<open>\<^verbatim>\<open>doSingleUpdate\<close> reads three fields of the mechanism, so the mechanism that
  \<^verbatim>\<open>newBookkeeperMechanism\<close> returns has it as its update step.\<close>

lemma doSingleUpdate_fields:
  assumes "getReadRefFn b' = getReadRefFn b"
      and "getCredentialsFn b' = getCredentialsFn b"
      and "renderManifestsFn b' = renderManifestsFn b"
  shows "doSingleUpdate b' = doSingleUpdate b"
  unfolding doSingleUpdate_def assms ..

lemma newBookkeeperMechanism_wiring:
  "doSingleUpdateFn (newBookkeeperMechanism getReadRef credentialsGet renderManifests)
     = doSingleUpdate (newBookkeeperMechanism getReadRef credentialsGet renderManifests)"
proof -
  let ?b = "\<lparr>doSingleUpdateFn = (\<lambda>namespace update newState images h. (Panic, h)),
             getReadRefFn = getReadRef,
             getCredentialsFn = credentialsGet,
             renderManifestsFn = renderManifests\<rparr>"
  have "doSingleUpdate (?b\<lparr>doSingleUpdateFn := doSingleUpdate ?b\<rparr>) = doSingleUpdate ?b"
    by (rule doSingleUpdate_fields) simp_all
  then show ?thesis
    by (simp add: newBookkeeperMechanism_def)
qed

theorem promote_leaves_input_state_witness:
  "bookkeeperUpdates (stageWith [plainUpdate ''https://c'']) = [] \<and>
   Promote exampleMechanism (stageWith [plainUpdate ''https://c'']) exampleState exampleStore
     = (Returned exampleState None, exampleStore) \<and>
   doSingleUpdateFn exampleMechanism = doSingleUpdate exampleMechanism \<and>
   StageState.Commits exampleState = Some 0 \<and>
   (0::nat) < length exampleStore \<and>
   take (length exampleStore)
     (snd (Promote exampleMechanism
             (stageWith [bookkeeperUpdate ''https://a'', bookkeeperUpdate ''https://b''])
             exampleState exampleStore))
     = exampleStore \<and>
   commitsOf
     (snd (Promote exampleMechanism
             (stageWith [bookkeeperUpdate ''https://a'', bookkeeperUpdate ''https://b''])
             exampleState exampleStore))
     (StageState.Commits exampleState)
     = commitsOf exampleStore (StageState.Commits exampleState)"
proof -
  let ?idle = "stageWith [plainUpdate ''https://c'']"
  let ?busy = "stageWith [bookkeeperUpdate ''https://a'', bookkeeperUpdate ''https://b'']"
  have none: "bookkeeperUpdates ?idle = []"
    by (simp add: bookkeeperUpdates_def stageWith_def plainUpdate_def)
  have wiring: "doSingleUpdateFn exampleMechanism = doSingleUpdate exampleMechanism"
    unfolding exampleMechanism_def by (rule newBookkeeperMechanism_wiring)
  have slice: "StageState.Commits exampleState = Some 0"
    by (simp add: exampleState_def)
  have addr: "(0::nat) < length exampleStore"
    by (simp add: exampleStore_def)
  have wf: "\<forall>a. StageState.Commits exampleState = Some a \<longrightarrow> a < length exampleStore"
    using slice addr by simp
  from promote_leaves_input_state [of ?idle exampleMechanism exampleState exampleStore] none
  have idle: "Promote exampleMechanism ?idle exampleState exampleStore
     = (Returned exampleState None, exampleStore)"
    by blast
  from promote_leaves_input_state [of ?busy exampleMechanism exampleState exampleStore]
    wiring wf
  have busy: "take (length exampleStore)
       (snd (Promote exampleMechanism ?busy exampleState exampleStore)) = exampleStore \<and>
     commitsOf (snd (Promote exampleMechanism ?busy exampleState exampleStore))
       (StageState.Commits exampleState)
       = commitsOf exampleStore (StageState.Commits exampleState)"
    by blast
  from none idle wiring slice addr busy show ?thesis by blast
qed

section \<open>Properties of the git-push schema\<close>

lemmas schema_keywords = allOf_def oneOf_def required_def properties_def noAdditionalProperties_def
  constOf_def enumOf_def minLength_def

text \<open>Only an object conforms, and an object that conforms names its target in
  exactly one of the two ways.\<close>

lemma GitPushConfig_object:
  "GitPushConfig config \<Longrightarrow> \<exists>kvs. config = JObject kvs"
  by (cases config) (simp_all add: GitPushConfig_def allOf_def)

lemma GitPushConfig_exactly_one:
  assumes "GitPushConfig (JObject kvs)"
  shows "generatesTargetBranch (JObject kvs) \<noteq> namesTargetBranch (JObject kvs)"
proof (cases "map_of kvs ''generateTargetBranch''")
  case None
  with assms show ?thesis
    by (cases "map_of kvs ''targetBranch''")
       (auto simp: GitPushConfig_def schema_keywords generatesTargetBranch_def namesTargetBranch_def
                   property_def split: json.splits if_splits)
next
  case (Some g)
  with assms show ?thesis
    by (cases "map_of kvs ''targetBranch''")
       (auto simp: GitPushConfig_def schema_keywords generatesTargetBranch_def namesTargetBranch_def
                   property_def split: json.splits if_splits)
qed

text \<open>
  C8. A configuration with \<^verbatim>\<open>generateTargetBranch\<close> true and a non-empty
  \<^verbatim>\<open>targetBranch\<close> fails validation with \<open>ConfigInvalid\<close>; and validation accepts a
  configuration only when exactly one of the two is present.
\<close>

theorem git_push_exactly_one_target:
  "(generatesTargetBranch config \<and> namesTargetBranch config
      \<longrightarrow> validate GitPushConfig config = Some ConfigInvalid) \<and>
   (validate GitPushConfig config = None
      \<longrightarrow> generatesTargetBranch config \<noteq> namesTargetBranch config)"
proof -
  have one: "generatesTargetBranch config \<noteq> namesTargetBranch config"
    if "GitPushConfig config"
  proof -
    from that obtain kvs where "config = JObject kvs"
      using GitPushConfig_object by blast
    with that show ?thesis
      using GitPushConfig_exactly_one by blast
  qed
  show ?thesis
  proof (cases "GitPushConfig config")
    case True
    with one show ?thesis by (simp add: validate_def)
  next
    case False
    then show ?thesis by (simp add: validate_def)
  qed
qed

theorem git_push_exactly_one_target_witness:
  "generatesTargetBranch bothTargets \<and> namesTargetBranch bothTargets \<and>
   validate GitPushConfig bothTargets = Some ConfigInvalid \<and>
   validate GitPushConfig namedTarget = None \<and>
   \<not> generatesTargetBranch namedTarget \<and> namesTargetBranch namedTarget"
proof -
  have both: "generatesTargetBranch bothTargets \<and> namesTargetBranch bothTargets"
    by (simp add: bothTargets_def generatesTargetBranch_def namesTargetBranch_def property_def)
  have valid: "validate GitPushConfig namedTarget = None"
    by (simp add: namedTarget_def validate_def GitPushConfig_def schema_keywords)
  have named: "namesTargetBranch namedTarget"
    by (simp add: namedTarget_def namesTargetBranch_def property_def)
  note thm1 = git_push_exactly_one_target [of bothTargets]
  note thm2 = git_push_exactly_one_target [of namedTarget]
  from thm1 both have "validate GitPushConfig bothTargets = Some ConfigInvalid" by blast
  moreover from thm2 valid named have "\<not> generatesTargetBranch namedTarget" by blast
  ultimately show ?thesis using both valid named by blast
qed

section \<open>Properties of the chart version changes\<close>

lemmas chart_examples = noCharts_def unversionedChart_def beforeCharts_def afterCharts_def
  changedCharts_def

text \<open>The test case with several changes: one version raised, one chart the same, one
  gone and one new.\<close>

lemma compareChartVersions_test:
  "compareChartVersions beforeCharts afterCharts = changedCharts"
  by (auto simp: compareChartVersions_def chart_examples fun_eq_iff)

text \<open>
  C9, as stated, fails: a chart that is new and has the empty string as its version is
  reported with the empty string, as a chart that is gone would be, so applying the
  changes deletes it and does not give the second map back.
\<close>

theorem unversioned_addition_counterexample:
  "applyChanges (compareChartVersions noCharts unversionedChart) noCharts \<noteq> unversionedChart"
proof
  assume "applyChanges (compareChartVersions noCharts unversionedChart) noCharts
            = unversionedChart"
  then have "applyChanges (compareChartVersions noCharts unversionedChart) noCharts ''c''
            = unversionedChart ''c''"
    by simp
  then show False
    by (simp add: applyChanges_def compareChartVersions_def chart_examples)
qed

text \<open>
  C9, amended. Comparing a map with itself reports nothing; and when no chart that is
  new has the empty string as its version, applying the changes reported for two maps
  to the first gives the second.
\<close>

theorem compare_then_apply:
  "compareChartVersions versions versions = Map.empty \<and>
   ((\<forall>name. before name = None \<longrightarrow> after name \<noteq> Some '''')
      \<longrightarrow> applyChanges (compareChartVersions before after) before = after)"
proof
  show "compareChartVersions versions versions = Map.empty"
    by (auto simp: compareChartVersions_def fun_eq_iff split: option.splits)
next
  show "(\<forall>name. before name = None \<longrightarrow> after name \<noteq> Some '''')
          \<longrightarrow> applyChanges (compareChartVersions before after) before = after"
  proof
    assume added: "\<forall>name. before name = None \<longrightarrow> after name \<noteq> Some ''''"
    show "applyChanges (compareChartVersions before after) before = after"
    proof
      fix name
      show "applyChanges (compareChartVersions before after) before name = after name"
      proof (cases "before name")
        case None
        with added have "after name \<noteq> Some ''''" by simp
        with None show ?thesis
          by (cases "after name") (simp_all add: applyChanges_def compareChartVersions_def)
      next
        case (Some oldVersion)
        then show ?thesis
          by (cases "after name") (simp_all add: applyChanges_def compareChartVersions_def)
      qed
    qed
  qed
qed

theorem compare_then_apply_witness:
  "compareChartVersions beforeCharts beforeCharts = Map.empty \<and>
   beforeCharts ''chart4'' = None \<and> afterCharts ''chart4'' = Some ''4.0.0'' \<and>
   applyChanges (compareChartVersions beforeCharts afterCharts) beforeCharts = afterCharts"
proof -
  have added: "\<forall>name. beforeCharts name = None \<longrightarrow> afterCharts name \<noteq> Some ''''"
    by (simp add: chart_examples)
  have new: "beforeCharts ''chart4'' = None \<and> afterCharts ''chart4'' = Some ''4.0.0''"
    by (simp add: chart_examples)
  from compare_then_apply [of beforeCharts beforeCharts afterCharts] added new
  show ?thesis by blast
qed

end
